theory Spec2Isabelle
  imports Main "HOL-Library.Word"
begin

unbundle bit_operations_syntax

section \<open>Data model\<close>

text \<open>
  The table \<open>URLShortener\<close> of \<open>src/app/main.py\<close>. A row object that has not been
  inserted yet has no primary key (\<open>id: int | None\<close>, default \<open>None\<close>) and, until
  \<open>generate_short_code\<close> assigns it, no \<open>shorten_url\<close> (the mapped attribute reads
  \<open>None\<close>). \<open>click_count\<close> is a Python integer with default 0.

  Strings are lists of 8-bit characters: they stand for the Python strings whose
  code points are below 256. Strings with other code points, among them the lone
  surrogates that the store cannot encode, are outside this model.
\<close>

record URLShortener =
  row_id :: "nat option"
  original_url :: string
  shorten_url :: "string option"
  click_count :: int

text \<open>
  The database behind a session: the rows of the table in storage order. Every
  function that takes the session of the source takes this value and returns the
  new one.
\<close>

type_synonym session = "URLShortener list"

text \<open>
  The exceptions that leave the functions of the module: a constraint of the table
  failing at \<open>session.commit()\<close>, an integer that does not fit the store's 64-bit
  \<open>INTEGER\<close> column at the same place, and the \<open>HTTPException\<close> the handlers raise
  themselves (status code and detail).
\<close>

datatype exn = IntegrityError | OverflowError | HTTPException nat string

text \<open>
  \<open>lookup_url\<close> returns either the integer \<open>0\<close> or a string; the handler tests the
  value for truthiness.
\<close>

datatype pyval = PyInt int | PyStr string

fun truthy :: "pyval \<Rightarrow> bool" where
  "truthy (PyInt n) = (n \<noteq> 0)"
| "truthy (PyStr s) = (s \<noteq> [])"

datatype ShortenRequest = ShortenRequest (request_original_url: string)

datatype response =
    RedirectResponse pyval
  | ShortenResponse string string
  | StatsAll "URLShortener list"
  | StatsOne URLShortener

section \<open>Library functions the module calls\<close>

text \<open>
  \<open>uuid4().int\<close> of Python's standard library: sixteen random bytes read as a
  big-endian integer, with the variant bits forced to \<open>10\<close> and the version
  nibble forced to 4:
  \<^verbatim>\<open>
    int &= ~(0xc000 << 48);  int |= 0x8000 << 48
    int &= ~(0xf000 << 64);  int |= version << 76
  \<close>
  The random bytes are the parameter \<open>rnd\<close>.
\<close>

definition uuid4_int :: "128 word \<Rightarrow> int" where
  "uuid4_int rnd =
     (let i = uint rnd;
          i = i AND NOT (push_bit 48 0xc000);
          i = i OR push_bit 48 0x8000;
          i = i AND NOT (push_bit 64 0xf000);
          i = i OR push_bit 76 4
      in i)"

text \<open>
  \<open>base62.encode\<close> with its default character set:
  \<^verbatim>\<open>
    chs = []
    while n > 0:
        n, r = divmod(n, BASE)
        chs.insert(0, charset[r])
    if not chs: return "0"
    return "".join(chs)
  \<close>
\<close>

definition BASE :: int where
  "BASE = 62"

definition CHARSET_DEFAULT :: string where
  "CHARSET_DEFAULT = ''0123456789ABCDEFGHIJKLMNOPQRSTUVWXYZabcdefghijklmnopqrstuvwxyz''"

function encode_loop :: "int \<Rightarrow> string \<Rightarrow> string" where
  "encode_loop n chs =
     (if n > 0 then encode_loop (n div BASE) (CHARSET_DEFAULT ! nat (n mod BASE) # chs)
      else chs)"
  by pat_completeness auto
termination
  by (relation "measure (\<lambda>(n, chs). nat n)") (auto simp: BASE_def)

definition encode :: "int \<Rightarrow> string" where
  "encode n = (let chs = encode_loop n [] in if chs = [] then ''0'' else chs)"

section \<open>The store\<close>

text \<open>
  The values an \<open>INTEGER\<close> column of the store holds: signed 64-bit. Binding a
  Python integer outside this range raises \<open>OverflowError\<close>.
\<close>

definition fits_INTEGER :: "int \<Rightarrow> bool" where
  "fits_INTEGER v = (- (2 ^ 63) \<le> v \<and> v \<le> 2 ^ 63 - 1)"

text \<open>
  The primary key SQLite gives a new row: one more than the largest in the table.
  This holds while the largest key is below \<open>2^63 - 1\<close>; at that key SQLite picks
  an unused key at random, which this function does not describe, and
  \<open>keys_below_limit\<close> says that the table is not there yet.
\<close>

definition next_id :: "session \<Rightarrow> nat" where
  "next_id session = Suc (fold max (List.map_filter row_id session) 0)"


text \<open>
  The place of a row inserted under a key of its own: before the first row with a
  larger key.
\<close>

fun insert_by_key :: "nat \<Rightarrow> URLShortener \<Rightarrow> session \<Rightarrow> session" where
  "insert_by_key k row [] = [row]"
| "insert_by_key k row (r # rs) =
     (case row_id r of
        Some j \<Rightarrow> if k < j then row # r # rs else r # insert_by_key k row rs
      | None \<Rightarrow> r # insert_by_key k row rs)"

text \<open>
  \<open>session.add(row); session.commit(); session.refresh(row)\<close> for a row object
  that is new, that is, not loaded from the session: an \<open>INSERT\<close>. The integers of
  the row are bound first and must fit their columns. The column \<open>shorten_url\<close> is
  declared \<open>unique=True\<close> and not nullable and \<open>id\<close> is the primary key, so the
  insert fails with an integrity error when the code is missing or already stored
  or when the row brings a key that is already in the table; a failed transaction
  leaves the table as it was. Otherwise a row without a key is appended with its
  new primary key, and a row with a key is stored under that key.
\<close>

definition insert_row :: "session \<Rightarrow> URLShortener \<Rightarrow> (exn + URLShortener) \<times> session" where
  "insert_row session row =
     (if \<not> fits_INTEGER (click_count row) \<or>
         (case row_id row of Some k \<Rightarrow> \<not> fits_INTEGER (int k) | None \<Rightarrow> False)
      then (Inl OverflowError, session)
      else if shorten_url row = None \<or> shorten_url row \<in> set (map shorten_url session)
      then (Inl IntegrityError, session)
      else case row_id row of
             None \<Rightarrow>
               let row' = row\<lparr>row_id := Some (next_id session)\<rparr>
               in (Inr row', session @ [row'])
           | Some k \<Rightarrow>
               if Some k \<in> set (map row_id session) then (Inl IntegrityError, session)
               else (Inr row, insert_by_key k row session))"

text \<open>
  \<open>select(cls).where(cls.shorten_url == short_code)\<close> followed by \<open>.first()\<close>: the
  position of the first row with that code, if any.
\<close>

fun first_index :: "('a \<Rightarrow> bool) \<Rightarrow> 'a list \<Rightarrow> nat option" where
  "first_index P [] = None"
| "first_index P (x # xs) = (if P x then Some 0 else map_option Suc (first_index P xs))"

definition select_first :: "session \<Rightarrow> string \<Rightarrow> nat option" where
  "select_first session short_code =
     first_index (\<lambda>r. shorten_url r = Some short_code) session"

section \<open>The model class\<close>

text \<open>\<open>URLShortener(original_url=...)\<close>: the other fields take their defaults.\<close>

definition new_URLShortener :: "string \<Rightarrow> URLShortener" where
  "new_URLShortener url =
     \<lparr>row_id = None, original_url = url, shorten_url = None, click_count = 0\<rparr>"

text \<open>
  \<open>URLShortener.generate_short_code\<close>: draws the UUID, keeps the first seven
  characters of its base-62 encoding as the row's code, inserts the row and
  commits, and returns \<open>self.shorten_url\<close>, which after the refresh is the code
  just written. An exception raised by the commit is not caught. \<open>self\<close> is a new
  row object, as the handler builds it.
\<close>

definition generate_short_code ::
    "URLShortener \<Rightarrow> session \<Rightarrow> 128 word \<Rightarrow> (exn + string) \<times> session" where
  "generate_short_code self session rnd =
     (let uuid_code = uuid4_int rnd;
          code = take 7 (encode uuid_code);
          self = self\<lparr>shorten_url := Some code\<rparr>
      in case insert_row session self of
           (Inl e, session') \<Rightarrow> (Inl e, session')
         | (Inr self', session') \<Rightarrow> (Inr code, session'))"

text \<open>
  \<open>URLShortener.lookup_url\<close>: returns the integer 0 when no row has the code;
  otherwise adds one to the row's counter, commits, and returns the row's URL.
  When the new counter does not fit the column, the commit raises
  \<open>OverflowError\<close>, which is not caught, and the row stays as it was.
\<close>

definition lookup_url :: "session \<Rightarrow> string \<Rightarrow> (exn + pyval) \<times> session" where
  "lookup_url session short_code =
     (case select_first session short_code of
        None \<Rightarrow> (Inr (PyInt 0), session)
      | Some i \<Rightarrow>
          let result = session ! i;
              result = result\<lparr>click_count := click_count result + 1\<rparr>
          in if fits_INTEGER (click_count result)
             then (Inr (PyStr (original_url result)), session[i := result])
             else (Inl OverflowError, session))"

section \<open>The handlers\<close>

text \<open>\<open>POST /shorten/\<close>\<close>

definition shorten_url_endpoint ::
    "ShortenRequest \<Rightarrow> session \<Rightarrow> 128 word \<Rightarrow> (exn + response) \<times> session" where
  "shorten_url_endpoint request session rnd =
     (let url = new_URLShortener (request_original_url request)
      in case generate_short_code url session rnd of
           (Inl e, session') \<Rightarrow> (Inl e, session')
         | (Inr short_code, session') \<Rightarrow>
             (Inr (ShortenResponse (request_original_url request) short_code), session'))"

text \<open>\<open>GET /{short_code}\<close>\<close>

definition redirect :: "string \<Rightarrow> session \<Rightarrow> (exn + response) \<times> session" where
  "redirect short_code session =
     (case lookup_url session short_code of
        (Inl e, session') \<Rightarrow> (Inl e, session')
      | (Inr url, session') \<Rightarrow>
          if truthy url then (Inr (RedirectResponse url), session')
          else (Inl (HTTPException 404 ''URL not found''), session'))"

text \<open>\<open>GET /stats/\<close>\<close>

definition get_all_rows :: "session \<Rightarrow> (exn + response) \<times> session" where
  "get_all_rows session = (Inr (StatsAll session), session)"

text \<open>\<open>GET /stats/{short_code}\<close>\<close>

definition get_stats :: "string \<Rightarrow> session \<Rightarrow> (exn + response) \<times> session" where
  "get_stats short_code session =
     (case select_first session short_code of
        None \<Rightarrow> (Inl (HTTPException 404 ''URL not found''), session)
      | Some i \<Rightarrow> (Inr (StatsOne (session ! i)), session))"

section \<open>Outcomes, sequences of calls and the invariants of the data model\<close>

text \<open>
  The status a client sees when an exception leaves a handler: the code of an
  \<open>HTTPException\<close>; any other exception is uncaught and the server answers 500.
\<close>

fun http_status :: "exn \<Rightarrow> nat" where
  "http_status (HTTPException status_code detail) = status_code"
| "http_status IntegrityError = 500"
| "http_status OverflowError = 500"

text \<open>
  \<open>lookup_url\<close> called \<open>n\<close> times in sequence with the same code: what each call
  returned or raised, in order, and the table left at the end.
\<close>

fun lookups :: "nat \<Rightarrow> session \<Rightarrow> string \<Rightarrow> (exn + pyval) list \<times> session" where
  "lookups 0 session short_code = ([], session)"
| "lookups (Suc n) session short_code =
     (case lookup_url session short_code of
        (r, session') \<Rightarrow>
          (case lookups n session' short_code of
             (rs, session'') \<Rightarrow> (r # rs, session'')))"



text \<open>
  The invariants of the data model: codes are unique, no stored URL is empty, and,
  between two states of the table, every row of the first is still there, at the
  same place, with the same key, URL and code and a counter that is not smaller.
\<close>

definition unique_codes :: "session \<Rightarrow> bool" where
  "unique_codes session = distinct (map shorten_url session)"

definition urls_nonempty :: "session \<Rightarrow> bool" where
  "urls_nonempty session = list_all (\<lambda>r. original_url r \<noteq> []) session"

definition same_row_counted_up :: "URLShortener \<Rightarrow> URLShortener \<Rightarrow> bool" where
  "same_row_counted_up r r' =
     (row_id r' = row_id r \<and> original_url r' = original_url r \<and>
      shorten_url r' = shorten_url r \<and> click_count r \<le> click_count r')"

definition counts_not_decreased :: "session \<Rightarrow> session \<Rightarrow> bool" where
  "counts_not_decreased session session' =
     (length session \<le> length session' \<and>
      list_all2 same_row_counted_up session (take (length session) session'))"

text \<open>
  The four operations on the store, each with the input it takes, and the table
  each leaves behind.
\<close>

datatype operation =
    Create ShortenRequest "128 word"
  | LookupAndIncrement string
  | GetStats string
  | ListAll

fun run :: "operation \<Rightarrow> session \<Rightarrow> session" where
  "run (Create request rnd) session = snd (shorten_url_endpoint request session rnd)"
| "run (LookupAndIncrement short_code) session = snd (redirect short_code session)"
| "run (GetStats short_code) session = snd (get_stats short_code session)"
| "run ListAll session = snd (get_all_rows session)"

fun stores_nonempty_url :: "operation \<Rightarrow> bool" where
  "stores_nonempty_url (Create request rnd) = (request_original_url request \<noteq> [])"
| "stores_nonempty_url (LookupAndIncrement short_code) = True"
| "stores_nonempty_url (GetStats short_code) = True"
| "stores_nonempty_url ListAll = True"

text \<open>Small tables used as concrete inputs.\<close>

definition stored_example :: session where
  "stored_example =
     [\<lparr>row_id = Some 1, original_url = ''https://example.com'',
       shorten_url = Some ''1VgEh72'', click_count = 0\<rparr>]"

definition stored_empty_url :: session where
  "stored_empty_url =
     [\<lparr>row_id = Some 1, original_url = [],
       shorten_url = Some ''1VgEh72'', click_count = 0\<rparr>]"

section \<open>The code generator\<close>


declare encode_loop.simps [simp del]
























section \<open>The store and the model class\<close>

lemma first_index_None_iff: "first_index P xs = None \<longleftrightarrow> (\<forall>x \<in> set xs. \<not> P x)"
  by (induction xs) auto

lemma first_index_SomeD:
  "first_index P xs = Some i \<Longrightarrow> i < length xs \<and> P (xs ! i)"
proof (induction xs arbitrary: i)
  case Nil
  then show ?case by simp
next
  case (Cons x xs)
  then show ?case by (cases "P x") auto
qed

lemma first_index_append_new:
  "\<forall>x \<in> set xs. \<not> P x \<Longrightarrow> P y \<Longrightarrow> first_index P (xs @ [y]) = Some (length xs)"
  by (induction xs) auto

lemma first_index_update_same:
  "first_index P xs = Some i \<Longrightarrow> P v \<Longrightarrow> first_index P (xs[i := v]) = Some i"
proof (induction xs arbitrary: i)
  case Nil
  then show ?case by simp
next
  case (Cons x xs)
  show ?case
  proof (cases "P x")
    case True
    with Cons.prems show ?thesis by simp
  next
    case False
    with Cons.prems obtain j where j: "first_index P xs = Some j" "i = Suc j"
      by auto
    from Cons.IH [OF j(1) Cons.prems(2)] False j(2) show ?thesis by simp
  qed
qed

lemma select_first_None_iff:
  "select_first session c = None \<longleftrightarrow> Some c \<notin> set (map shorten_url session)"
  by (force simp: select_first_def first_index_None_iff image_iff)

lemma select_first_SomeD:
  "select_first session c = Some i \<Longrightarrow> i < length session \<and> shorten_url (session ! i) = Some c"
  unfolding select_first_def by (rule first_index_SomeD)

lemma fits_INTEGER_0: "fits_INTEGER 0"
  by (simp add: fits_INTEGER_def)

lemma generate_short_code_collision:
  "Some (take 7 (encode (uuid4_int rnd))) \<in> set (map shorten_url session) \<Longrightarrow>
   generate_short_code (new_URLShortener u) session rnd = (Inl IntegrityError, session)"
  by (simp add: generate_short_code_def insert_row_def new_URLShortener_def fits_INTEGER_0)

lemma generate_short_code_fresh:
  "Some (take 7 (encode (uuid4_int rnd))) \<notin> set (map shorten_url session) \<Longrightarrow>
   generate_short_code (new_URLShortener u) session rnd =
     (Inr (take 7 (encode (uuid4_int rnd))),
      session @ [\<lparr>row_id = Some (next_id session), original_url = u,
                  shorten_url = Some (take 7 (encode (uuid4_int rnd))),
                  click_count = 0\<rparr>])"
  by (simp add: generate_short_code_def insert_row_def new_URLShortener_def fits_INTEGER_0
      Let_def)

lemma shorten_url_endpoint_collision:
  "Some (take 7 (encode (uuid4_int rnd))) \<in> set (map shorten_url session) \<Longrightarrow>
   shorten_url_endpoint request session rnd = (Inl IntegrityError, session)"
  by (simp add: shorten_url_endpoint_def generate_short_code_collision)

lemma shorten_url_endpoint_fresh:
  "Some (take 7 (encode (uuid4_int rnd))) \<notin> set (map shorten_url session) \<Longrightarrow>
   shorten_url_endpoint request session rnd =
     (Inr (ShortenResponse (request_original_url request) (take 7 (encode (uuid4_int rnd)))),
      session @ [\<lparr>row_id = Some (next_id session),
                  original_url = request_original_url request,
                  shorten_url = Some (take 7 (encode (uuid4_int rnd))),
                  click_count = 0\<rparr>])"
  by (simp add: shorten_url_endpoint_def generate_short_code_fresh)

lemma lookup_url_miss:
  "Some c \<notin> set (map shorten_url session) \<Longrightarrow>
   lookup_url session c = (Inr (PyInt 0), session)"
  using select_first_None_iff [of session c] by (simp add: lookup_url_def)

lemma lookup_url_hit:
  "select_first session c = Some i \<Longrightarrow> fits_INTEGER (click_count (session ! i) + 1) \<Longrightarrow>
   lookup_url session c =
     (Inr (PyStr (original_url (session ! i))),
      session[i := (session ! i)\<lparr>click_count := click_count (session ! i) + 1\<rparr>])"
  by (simp add: lookup_url_def Let_def)

lemma lookup_url_overflow:
  "select_first session c = Some i \<Longrightarrow> \<not> fits_INTEGER (click_count (session ! i) + 1) \<Longrightarrow>
   lookup_url session c = (Inl OverflowError, session)"
  by (simp add: lookup_url_def Let_def)

lemma select_first_after_hit:
  assumes "select_first session c = Some i"
  shows "select_first (session[i := (session ! i)\<lparr>click_count := k\<rparr>]) c = Some i"
proof -
  from select_first_SomeD [OF assms]
  have "shorten_url ((session ! i)\<lparr>click_count := k\<rparr>) = Some c" by simp
  with assms show ?thesis
    unfolding select_first_def by (rule first_index_update_same)
qed

lemma lookups_hit:
  "select_first session c = Some i \<Longrightarrow>
   - (2 ^ 63) \<le> click_count (session ! i) \<Longrightarrow>
   click_count (session ! i) + int N \<le> 2 ^ 63 - 1 \<Longrightarrow>
   lookups N session c =
     (replicate N (Inr (PyStr (original_url (session ! i)))),
      session[i := (session ! i)\<lparr>click_count := click_count (session ! i) + int N\<rparr>])"
proof (induction N arbitrary: session)
  case 0
  then show ?case by simp
next
  case (Suc N)
  let ?s = "session[i := (session ! i)\<lparr>click_count := click_count (session ! i) + 1\<rparr>]"
  from select_first_SomeD [OF Suc.prems(1)] have i: "i < length session" by simp
  have fits: "fits_INTEGER (click_count (session ! i) + 1)"
    using Suc.prems(2,3) by (simp add: fits_INTEGER_def)
  have sel: "select_first ?s c = Some i"
    using Suc.prems(1) by (rule select_first_after_hit)
  have lo: "- (2 ^ 63) \<le> click_count (?s ! i)"
    using i Suc.prems(2) by simp
  have hi: "click_count (?s ! i) + int N \<le> 2 ^ 63 - 1"
    using i Suc.prems(3) by simp
  have rest: "lookups N ?s c =
     (replicate N (Inr (PyStr (original_url (?s ! i)))),
      ?s[i := (?s ! i)\<lparr>click_count := click_count (?s ! i) + int N\<rparr>])"
    using sel lo hi by (rule Suc.IH)
  have url: "original_url (?s ! i) = original_url (session ! i)"
    using i by simp
  have tab: "?s[i := (?s ! i)\<lparr>click_count := click_count (?s ! i) + int N\<rparr>] =
     session[i := (session ! i)\<lparr>click_count := click_count (session ! i) + int (Suc N)\<rparr>]"
    using i by (simp add: add.assoc)
  have "lookups (Suc N) session c =
     (Inr (PyStr (original_url (session ! i))) # replicate N (Inr (PyStr (original_url (?s ! i)))),
      ?s[i := (?s ! i)\<lparr>click_count := click_count (?s ! i) + int N\<rparr>])"
    by (simp only: lookups.simps lookup_url_hit [OF Suc.prems(1) fits] rest prod.case)
  then show ?case by (simp only: url tab replicate_Suc)
qed

text \<open>The codes the two extreme draws give.\<close>

lemma code_of_zero: "take 7 (encode (uuid4_int 0)) = ''1VgEh72''"
  by code_simp

lemma code_of_ones: "take 7 (encode (uuid4_int (- 1))) = ''7n42DGM''"
  by code_simp

lemma redirect_hit:
  "select_first session c = Some i \<Longrightarrow> fits_INTEGER (click_count (session ! i) + 1) \<Longrightarrow>
   redirect c session =
     (if original_url (session ! i) \<noteq> []
      then Inr (RedirectResponse (PyStr (original_url (session ! i))))
      else Inl (HTTPException 404 ''URL not found''),
      session[i := (session ! i)\<lparr>click_count := click_count (session ! i) + 1\<rparr>])"
  by (simp add: redirect_def lookup_url_hit)

lemma redirect_overflow:
  "select_first session c = Some i \<Longrightarrow> \<not> fits_INTEGER (click_count (session ! i) + 1) \<Longrightarrow>
   redirect c session = (Inl OverflowError, session)"
  by (simp add: redirect_def lookup_url_overflow)

section \<open>What each operation does to the invariants\<close>

lemma same_row_counted_up_refl: "same_row_counted_up r r"
  by (simp add: same_row_counted_up_def)

lemma counts_not_decreased_refl: "counts_not_decreased session session"
  by (simp add: counts_not_decreased_def list_all2_conv_all_nth same_row_counted_up_refl)

lemma counts_not_decreased_append: "counts_not_decreased session (session @ rows)"
  by (simp add: counts_not_decreased_def list_all2_conv_all_nth same_row_counted_up_refl)

lemma counts_not_decreased_bump:
  "counts_not_decreased session
     (session[i := (session ! i)\<lparr>click_count := click_count (session ! i) + 1\<rparr>])"
proof (cases "i < length session")
  case True
  then show ?thesis
    by (simp add: counts_not_decreased_def list_all2_conv_all_nth nth_list_update
        same_row_counted_up_def)
next
  case False
  then have "length session \<le> i" by simp
  then show ?thesis by (simp only: list_update_beyond counts_not_decreased_refl)
qed

lemma unique_codes_append:
  "unique_codes session \<Longrightarrow> shorten_url row \<notin> set (map shorten_url session) \<Longrightarrow>
   unique_codes (session @ [row])"
  by (simp add: unique_codes_def)

lemma codes_bump:
  "map shorten_url (session[i := (session ! i)\<lparr>click_count := k\<rparr>]) = map shorten_url session"
proof (cases "i < length session")
  case True
  then show ?thesis by (simp add: map_update list_update_same_conv)
next
  case False
  then have "length session \<le> i" by simp
  then show ?thesis by (simp only: list_update_beyond)
qed

lemma unique_codes_bump:
  "unique_codes session \<Longrightarrow> unique_codes (session[i := (session ! i)\<lparr>click_count := k\<rparr>])"
  by (simp add: unique_codes_def codes_bump)

lemma urls_nonempty_append:
  "urls_nonempty session \<Longrightarrow> original_url row \<noteq> [] \<Longrightarrow> urls_nonempty (session @ [row])"
  by (simp add: urls_nonempty_def)

lemma urls_bump:
  "map original_url (session[i := (session ! i)\<lparr>click_count := k\<rparr>]) = map original_url session"
proof (cases "i < length session")
  case True
  then show ?thesis by (simp add: map_update list_update_same_conv)
next
  case False
  then have "length session \<le> i" by simp
  then show ?thesis by (simp only: list_update_beyond)
qed

lemma urls_nonempty_map: "urls_nonempty session = list_all (\<lambda>u. u \<noteq> []) (map original_url session)"
  by (simp add: urls_nonempty_def list_all_iff)

lemma urls_nonempty_bump:
  "urls_nonempty session \<Longrightarrow> urls_nonempty (session[i := (session ! i)\<lparr>click_count := k\<rparr>])"
  by (simp only: urls_nonempty_map urls_bump)

lemma redirect_miss:
  "select_first session c = None \<Longrightarrow>
   redirect c session = (Inl (HTTPException 404 ''URL not found''), session)"
  by (simp add: redirect_def lookup_url_def)

lemma get_stats_session: "snd (get_stats c session) = session"
  by (simp add: get_stats_def split: option.splits)

lemma run_cases:
  "run op session = session \<or>
   (\<exists>request rnd. op = Create request rnd \<and>
      Some (take 7 (encode (uuid4_int rnd))) \<notin> set (map shorten_url session) \<and>
      run op session =
        session @ [\<lparr>row_id = Some (next_id session),
                    original_url = request_original_url request,
                    shorten_url = Some (take 7 (encode (uuid4_int rnd))),
                    click_count = 0\<rparr>]) \<or>
   (\<exists>i. run op session =
        session[i := (session ! i)\<lparr>click_count := click_count (session ! i) + 1\<rparr>])"
proof (cases op)
  case (Create request rnd)
  show ?thesis
  proof (cases "Some (take 7 (encode (uuid4_int rnd))) \<in> set (map shorten_url session)")
    case True
    then show ?thesis by (simp add: Create shorten_url_endpoint_collision)
  next
    case False
    then show ?thesis by (simp add: Create shorten_url_endpoint_fresh)
  qed
next
  case (LookupAndIncrement c)
  show ?thesis
  proof (cases "select_first session c")
    case None
    then show ?thesis by (simp add: LookupAndIncrement redirect_miss)
  next
    case (Some i)
    show ?thesis
    proof (cases "fits_INTEGER (click_count (session ! i) + 1)")
      case True
      have "run op session =
          session[i := (session ! i)\<lparr>click_count := click_count (session ! i) + 1\<rparr>]"
        by (simp add: LookupAndIncrement redirect_hit [OF Some True])
      then show ?thesis by blast
    next
      case False
      then show ?thesis by (simp add: LookupAndIncrement redirect_overflow [OF Some])
    qed
  qed
next
  case (GetStats c)
  then show ?thesis by (simp add: get_stats_session)
next
  case ListAll
  then show ?thesis by (simp add: get_all_rows_def)
qed

lemma run_unique_codes: "unique_codes session \<Longrightarrow> unique_codes (run op session)"
  using run_cases [of op session]
  by (auto simp: unique_codes_append unique_codes_bump simp del: run.simps)

lemma run_counts: "counts_not_decreased session (run op session)"
  using run_cases [of op session]
  by (auto simp: counts_not_decreased_refl counts_not_decreased_append
      counts_not_decreased_bump simp del: run.simps)

lemma run_urls_nonempty:
  "urls_nonempty session \<Longrightarrow> stores_nonempty_url op \<Longrightarrow> urls_nonempty (run op session)"
  using run_cases [of op session]
  by (auto simp: urls_nonempty_append urls_nonempty_bump simp del: run.simps)

section \<open>Looking up a code that is not stored\<close>

text \<open>
  Claim C1. For a short code that no stored row has, \<open>lookup_url\<close> returns its
  not-found value (the integer 0) without raising, and leaves the table exactly as
  it was, so no row is created; the redirect handler turns that value into the
  response 404 "URL not found".
\<close>

theorem lookup_unknown_code:
  "Some c \<notin> set (map shorten_url session) \<Longrightarrow>
     lookup_url session c = (Inr (PyInt 0), session) \<and>
     redirect c session = (Inl (HTTPException 404 ''URL not found''), session)"
  by (simp add: lookup_url_miss redirect_def)

theorem lookup_unknown_code_witness:
  "Some ''nothere'' \<notin> set (map shorten_url stored_example) \<and>
   lookup_url stored_example ''nothere'' = (Inr (PyInt 0), stored_example) \<and>
   redirect ''nothere'' stored_example =
     (Inl (HTTPException 404 ''URL not found''), stored_example)"
proof -
  have h: "Some ''nothere'' \<notin> set (map shorten_url stored_example)"
    by (simp add: stored_example_def)
  from h lookup_unknown_code [OF h] show ?thesis by simp
qed

section \<open>Round trip\<close>

text \<open>
  Claim C2. For a non-empty URL \<open>u\<close>: when the shorten handler succeeds and
  answers with the code \<open>c\<close>, a lookup of \<open>c\<close> on the table it left returns \<open>u\<close>,
  and the redirect handler redirects to \<open>u\<close>.
\<close>

theorem create_then_lookup:
  assumes "u \<noteq> []"
    and "shorten_url_endpoint (ShortenRequest u) session rnd =
           (Inr (ShortenResponse u c), session')"
  shows "fst (lookup_url session' c) = Inr (PyStr u) \<and>
         fst (redirect c session') = Inr (RedirectResponse (PyStr u))"
proof -
  let ?code = "take 7 (encode (uuid4_int rnd))"
  have fresh: "Some ?code \<notin> set (map shorten_url session)"
  proof
    assume "Some ?code \<in> set (map shorten_url session)"
    from shorten_url_endpoint_collision [OF this] assms(2) show False by simp
  qed
  let ?row = "\<lparr>row_id = Some (next_id session), original_url = u,
                shorten_url = Some ?code, click_count = 0\<rparr>"
  from shorten_url_endpoint_fresh [OF fresh, of "ShortenRequest u"] assms(2)
  have c: "c = ?code" and s': "session' = session @ [?row]" by simp_all
  have "\<forall>r \<in> set session. \<not> shorten_url r = Some c"
    using fresh c by (force simp: image_iff)
  then have "first_index (\<lambda>r. shorten_url r = Some c) (session @ [?row]) = Some (length session)"
    by (rule first_index_append_new) (simp add: c)
  then have sel: "select_first session' c = Some (length session)"
    by (simp add: select_first_def s')
  have row: "original_url (session' ! length session) = u"
    by (simp add: s')
  have fits: "fits_INTEGER (click_count (session' ! length session) + 1)"
    by (simp add: s' fits_INTEGER_def)
  have "fst (lookup_url session' c) = Inr (PyStr u)"
    unfolding lookup_url_hit [OF sel fits] using row by simp
  moreover have "fst (redirect c session') = Inr (RedirectResponse (PyStr u))"
    unfolding redirect_hit [OF sel fits] using row assms(1) by simp
  ultimately show ?thesis by simp
qed

theorem create_then_lookup_witness:
  "''https://example.com'' \<noteq> [] \<and>
   shorten_url_endpoint (ShortenRequest ''https://example.com'') [] 0 =
     (Inr (ShortenResponse ''https://example.com'' ''1VgEh72''), stored_example) \<and>
   fst (lookup_url stored_example ''1VgEh72'') = Inr (PyStr ''https://example.com'') \<and>
   fst (redirect ''1VgEh72'' stored_example) =
     Inr (RedirectResponse (PyStr ''https://example.com''))"
proof -
  have h1: "''https://example.com'' \<noteq> []" by simp
  have h2: "shorten_url_endpoint (ShortenRequest ''https://example.com'') [] 0 =
     (Inr (ShortenResponse ''https://example.com'' ''1VgEh72''), stored_example)"
    by (simp add: shorten_url_endpoint_fresh code_of_zero stored_example_def next_id_def
        List.map_filter_simps)
  from h1 h2 create_then_lookup [OF h1 h2] show ?thesis by simp
qed

section \<open>Counting lookups\<close>

text \<open>
  Claim C3, as stated, holds for every \<open>N\<close> and every stored counter. The counter
  is kept in a signed 64-bit column: on a row whose counter is \<open>2^63 - 1\<close> the
  lookup raises \<open>OverflowError\<close> and the row keeps its counter.
\<close>

theorem lookup_at_limit_overflows:
  "lookups 1
     [\<lparr>row_id = Some 1, original_url = ''https://example.com'',
       shorten_url = Some ''1VgEh72'', click_count = 9223372036854775807\<rparr>]
     ''1VgEh72'' =
   ([Inl OverflowError],
    [\<lparr>row_id = Some 1, original_url = ''https://example.com'',
      shorten_url = Some ''1VgEh72'', click_count = 9223372036854775807\<rparr>])"
  by (simp add: lookup_url_def select_first_def fits_INTEGER_def)

text \<open>
  Claim C3, amended. For the code \<open>c\<close> of a stored row and every \<open>N\<close> for which
  the row's counter plus \<open>N\<close> still fits the signed 64-bit column, calling
  \<open>lookup_url\<close> on \<open>c\<close> \<open>N\<close> times in sequence returns the row's URL each time,
  adds exactly \<open>N\<close> to that row's \<open>click_count\<close> and changes nothing else in the
  table; a row is created with the counter 0, so after \<open>N\<close> lookups it reads \<open>N\<close>.
\<close>

theorem lookups_add_exactly_N:
  "select_first session c = Some i \<Longrightarrow>
   - (2 ^ 63) \<le> click_count (session ! i) \<Longrightarrow>
   click_count (session ! i) + int N \<le> 2 ^ 63 - 1 \<Longrightarrow>
     lookups N session c =
       (replicate N (Inr (PyStr (original_url (session ! i)))),
        session[i := (session ! i)\<lparr>click_count := click_count (session ! i) + int N\<rparr>]) \<and>
     click_count (snd (lookups N session c) ! i) = click_count (session ! i) + int N"
proof -
  assume sel: "select_first session c = Some i"
    and lo: "- (2 ^ 63) \<le> click_count (session ! i)"
    and hi: "click_count (session ! i) + int N \<le> 2 ^ 63 - 1"
  from select_first_SomeD [OF sel] have "i < length session" by simp
  then show ?thesis by (simp add: lookups_hit [OF sel lo hi])
qed

theorem lookups_add_exactly_N_witness:
  "select_first stored_example ''1VgEh72'' = Some 0 \<and>
   click_count (stored_example ! 0) = 0 \<and>
   fst (lookups 3 stored_example ''1VgEh72'') =
     [Inr (PyStr ''https://example.com''), Inr (PyStr ''https://example.com''),
      Inr (PyStr ''https://example.com'')] \<and>
   click_count (snd (lookups 3 stored_example ''1VgEh72'') ! 0) = 3"
proof -
  have h: "select_first stored_example ''1VgEh72'' = Some 0"
    by (simp add: select_first_def stored_example_def)
  have z: "click_count (stored_example ! 0) = 0"
    by (simp add: stored_example_def)
  have u: "original_url (stored_example ! 0) = ''https://example.com''"
    by (simp add: stored_example_def)
  have lo: "- (2 ^ 63) \<le> click_count (stored_example ! 0)" by (simp add: z)
  have hi: "click_count (stored_example ! 0) + int 3 \<le> 2 ^ 63 - 1" by (simp add: z)
  have r: "replicate 3 (Inr (PyStr ''https://example.com'') :: exn + pyval) =
     [Inr (PyStr ''https://example.com''), Inr (PyStr ''https://example.com''),
      Inr (PyStr ''https://example.com'')]"
    by (simp add: numeral_3_eq_3)
  have a: "fst (lookups 3 stored_example ''1VgEh72'') =
       replicate 3 (Inr (PyStr (original_url (stored_example ! 0))))"
    using lookups_add_exactly_N [OF h lo hi, THEN conjunct1] by simp
  have b: "click_count (snd (lookups 3 stored_example ''1VgEh72'') ! 0) =
       click_count (stored_example ! 0) + int 3"
    using lookups_add_exactly_N [OF h lo hi, THEN conjunct2] .
  from h z a b show ?thesis by (simp add: u r)
qed

section \<open>The form of a short code\<close>



section \<open>A generated code that is already stored\<close>




section \<open>The invariants of the data model\<close>

text \<open>
  Claim C6, as stated, has every operation keep every stored URL non-empty. The
  empty table satisfies the invariants, and a create request with the empty string
  stores a row whose \<open>original_url\<close> is empty.
\<close>

theorem empty_url_breaks_invariant:
  "unique_codes [] \<and> urls_nonempty [] \<and>
   run (Create (ShortenRequest []) 0) [] =
     [\<lparr>row_id = Some 1, original_url = [], shorten_url = Some ''1VgEh72'',
       click_count = 0\<rparr>] \<and>
   \<not> urls_nonempty (run (Create (ShortenRequest []) 0) [])"
  by (simp add: unique_codes_def urls_nonempty_def shorten_url_endpoint_fresh code_of_zero
      next_id_def List.map_filter_simps)

text \<open>
  Claim C6, amended. Every operation (create, lookup and increment, get stats, list
  all) keeps the codes unique and keeps every row in place with the same key, URL
  and code and a counter that is not smaller. The lookups and a create request
  with a non-empty URL keep every stored URL non-empty; a create request with the
  empty string is accepted.
\<close>

theorem operations_keep_invariants:
  "(unique_codes session \<longrightarrow> unique_codes (run op session)) \<and>
   counts_not_decreased session (run op session) \<and>
   (urls_nonempty session \<and> stores_nonempty_url op \<longrightarrow> urls_nonempty (run op session))"
  by (simp add: run_unique_codes run_counts run_urls_nonempty del: run.simps)

theorem operations_keep_invariants_witness:
  "unique_codes stored_example \<and> urls_nonempty stored_example \<and>
   stores_nonempty_url (Create (ShortenRequest ''https://example.org'') (- 1)) \<and>
   run (Create (ShortenRequest ''https://example.org'') (- 1)) stored_example =
     stored_example @
       [\<lparr>row_id = Some 2, original_url = ''https://example.org'',
         shorten_url = Some ''7n42DGM'', click_count = 0\<rparr>] \<and>
   unique_codes (run (Create (ShortenRequest ''https://example.org'') (- 1)) stored_example) \<and>
   counts_not_decreased stored_example
     (run (Create (ShortenRequest ''https://example.org'') (- 1)) stored_example) \<and>
   urls_nonempty (run (Create (ShortenRequest ''https://example.org'') (- 1)) stored_example)"
proof -
  let ?op = "Create (ShortenRequest ''https://example.org'') (- 1)"
  have h1: "unique_codes stored_example"
    by (simp add: unique_codes_def stored_example_def)
  have h2: "urls_nonempty stored_example"
    by (simp add: urls_nonempty_def stored_example_def)
  have h3: "stores_nonempty_url ?op" by simp
  have r: "run ?op stored_example =
     stored_example @
       [\<lparr>row_id = Some 2, original_url = ''https://example.org'',
         shorten_url = Some ''7n42DGM'', click_count = 0\<rparr>]"
    by (simp add: shorten_url_endpoint_fresh code_of_ones stored_example_def next_id_def
        List.map_filter_simps)
  from operations_keep_invariants [of stored_example ?op] h1 h2 h3 r
  show ?thesis by (simp del: run.simps)
qed

section \<open>Statistics of one code\<close>

text \<open>
  Claim C7. For every short code, \<open>get_stats\<close> leaves the table exactly as it was:
  no row, and no field of the row it reports, is changed.
\<close>

theorem get_stats_leaves_table: "snd (get_stats c session) = session"
  by (rule get_stats_session)

theorem get_stats_leaves_table_witness:
  "get_stats ''1VgEh72'' stored_example =
     (Inr (StatsOne \<lparr>row_id = Some 1, original_url = ''https://example.com'',
                      shorten_url = Some ''1VgEh72'', click_count = 0\<rparr>),
      stored_example)"
proof -
  have "fst (get_stats ''1VgEh72'' stored_example) =
     Inr (StatsOne \<lparr>row_id = Some 1, original_url = ''https://example.com'',
                      shorten_url = Some ''1VgEh72'', click_count = 0\<rparr>)"
    by (simp add: get_stats_def select_first_def stored_example_def)
  with get_stats_leaves_table [of "''1VgEh72''" stored_example]
  show ?thesis by (simp add: prod_eq_iff)
qed

section \<open>What the shorten handler accepts\<close>




section \<open>Who persists the row\<close>




section \<open>Redirecting to an empty URL\<close>

text \<open>
  Claim C10, as stated, holds for every stored row with an empty URL. On such a
  row whose counter is \<open>2^63 - 1\<close>, the largest value of the signed 64-bit column,
  the redirect handler does not answer 404 and does not increment: the lookup
  raises \<open>OverflowError\<close>, a 500 for the client, and the row keeps its counter.
\<close>

theorem redirect_empty_url_at_limit:
  "redirect ''1VgEh72''
     [\<lparr>row_id = Some 1, original_url = [], shorten_url = Some ''1VgEh72'',
       click_count = 9223372036854775807\<rparr>] =
   (Inl OverflowError,
    [\<lparr>row_id = Some 1, original_url = [], shorten_url = Some ''1VgEh72'',
      click_count = 9223372036854775807\<rparr>]) \<and>
   http_status OverflowError = 500"
  by (simp add: redirect_def lookup_url_def select_first_def fits_INTEGER_def)

text \<open>
  Claim C10, amended. When the row found for a code has the empty string as its
  \<open>original_url\<close> and its counter plus one still fits the signed 64-bit column,
  the redirect handler adds one to the row's \<open>click_count\<close> and answers 404: the
  handler tests the value \<open>lookup_url\<close> returned for truthiness, and the empty
  string is as false as the integer 0 of a miss. So a 404 neither means that the
  code is absent nor that the table is unchanged.
\<close>

theorem redirect_empty_url:
  "select_first session c = Some i \<Longrightarrow> original_url (session ! i) = [] \<Longrightarrow>
   fits_INTEGER (click_count (session ! i) + 1) \<Longrightarrow>
     redirect c session =
       (Inl (HTTPException 404 ''URL not found''),
        session[i := (session ! i)\<lparr>click_count := click_count (session ! i) + 1\<rparr>])"
  by (simp add: redirect_hit)

theorem redirect_empty_url_witness:
  "snd (shorten_url_endpoint (ShortenRequest []) [] 0) = stored_empty_url \<and>
   select_first stored_empty_url ''1VgEh72'' = Some 0 \<and>
   original_url (stored_empty_url ! 0) = [] \<and>
   fits_INTEGER (click_count (stored_empty_url ! 0) + 1) \<and>
   redirect ''1VgEh72'' stored_empty_url =
     (Inl (HTTPException 404 ''URL not found''),
      [\<lparr>row_id = Some 1, original_url = [], shorten_url = Some ''1VgEh72'',
        click_count = 1\<rparr>])"
proof -
  have h0: "snd (shorten_url_endpoint (ShortenRequest []) [] 0) = stored_empty_url"
    by (simp add: shorten_url_endpoint_fresh code_of_zero stored_empty_url_def next_id_def
        List.map_filter_simps)
  have h1: "select_first stored_empty_url ''1VgEh72'' = Some 0"
    by (simp add: select_first_def stored_empty_url_def)
  have h2: "original_url (stored_empty_url ! 0) = []"
    by (simp add: stored_empty_url_def)
  have h3: "fits_INTEGER (click_count (stored_empty_url ! 0) + 1)"
    by (simp add: stored_empty_url_def fits_INTEGER_def)
  have "redirect ''1VgEh72'' stored_empty_url =
     (Inl (HTTPException 404 ''URL not found''),
      [\<lparr>row_id = Some 1, original_url = [], shorten_url = Some ''1VgEh72'',
        click_count = 1\<rparr>])"
    using redirect_empty_url [OF h1 h2 h3] by (simp add: stored_empty_url_def)
  with h0 h1 h2 h3 show ?thesis by simp
qed

end
